theory Spec2Isabelle
  imports Main "HOL-Library.AList"
begin

section \<open>The development server of the Jamsocket CLI\<close>

text \<open>
  This theory embeds the class \<open>DevServer\<close> (the second document of
  \<^verbatim>\<open>src/commands/service/create.ts\<close>) and proves properties of its spawn, streaming,
  rebuild, terminate and shutdown paths.

  JavaScript runs every handler to its next \<open>await\<close> without interruption. Each function
  below is one such uninterrupted segment, or the composition of the segments of one call with
  the answer of the awaited remote call given as an argument. What the remote control plane,
  the image builder and the clock answer is an argument of the function that asks.

  Backend objects are shared: the Registry (\<open>devBackends\<close>) and the callbacks of a stream
  pair hold the same object, and a callback keeps its object after the entry has left the
  Registry. So the model has a store of objects (\<open>objs\<close>, from references to objects), the
  Registry maps a name to a reference, and a stream pair records the reference its callbacks
  captured.
\<close>

subsection \<open>Data\<close>

datatype Color = cyan | magenta | yellow | blue

definition BACKEND_LOG_COLORS :: "Color list" where
  "BACKEND_LOG_COLORS = [cyan, magenta, yellow, blue]"

text \<open>Of a spawn response the code reads \<open>name\<close> and \<open>spawned\<close>, nothing else.\<close>

record SpawnResult =
  name :: string
  spawned :: bool

text \<open>The body of a spawn request; \<open>body_lock\<close> is its field \<open>lock\<close>.\<close>

record SpawnRequestBody =
  env :: "(string \<times> string) list option"
  grace_period_seconds :: "int option"
  port :: "int option"
  tag :: "string option"
  require_bearer_token :: "bool option"
  body_lock :: "string option"

text \<open>
  \<open>closeStreams\<close> is \<open>null\<close> or the closure that closes the two streams of one stream
  pair; the closure is represented by the number of its pair.
\<close>

record Backend =
  spawnResult :: SpawnResult
  imageId :: string
  spawnTime :: nat
  lastStatus :: "string option"
  lock :: "string option"
  isStreaming :: bool
  color :: Color
  closeStreams :: "nat option"

record Options =
  dockerfile :: string
  service :: string
  account :: string
  watch :: "string list option"

text \<open>
  A stream pair is what one call of \<open>streamStatusAndLogs\<close> opens: the name and the object
  its callbacks captured, and whether the \<open>closed\<close> signals of both streams have fired and
  the call has resumed after its \<open>await\<close>. When a stream delivers an update, a line or its
  closed signal is the remote client's matter: each delivery is an argument of the model
  (\<open>onStatus\<close>, \<open>onLog\<close>, \<open>onStreamsEnded\<close>), and the class itself can only ask a
  stream to close.
\<close>

record StreamPair =
  backendName :: string
  backend :: nat
  ended :: bool

text \<open>
  Everything the server does to the outside is appended to a trace: the lines
  \<open>updateFooterAndLog\<close> writes to the console (\<open>Console\<close>; the footer it redraws after
  them is a function of the Registry and is not part of the trace, nor is the counter
  \<open>curFooterLength\<close>; colouring is left out), a plain \<open>console.log\<close> (\<open>Print\<close>), and
  the calls to the remote client, the image builder, the streams, the HTTP server, the file
  watcher and the terminal.
\<close>

datatype effect =
    Console "string list"
  | ClearFooter
  | BuildImage string
  | RemotePush string string
  | RemoteSpawn string SpawnRequestBody
  | RemoteTerminate string
  | StreamStatusOpen string nat
  | StreamLogsOpen string nat
  | StatusStreamClose nat
  | LogsStreamClose nat
  | Print string
  | ServerListen nat
  | StdinListen
  | FsWatch "string list"
  | ServerClose
  | FsWatcherClose
  | StdinRelease

text \<open>
  What can be thrown: an \<open>Error\<close> the class makes itself, with its message; the
  \<open>TypeError\<close> of reading a field of \<open>undefined\<close>; a failure of the image builder; a
  rejected call of the remote client.
\<close>

datatype js_error = Error string | TypeError | BuildFailure | RemoteFailure

datatype 'a result = Threw js_error | Returned 'a

text \<open>
  The fields of the class (\<open>hasFsWatcher\<close> for whether \<open>fsWatcher\<close> is set), then the
  object store with the next unused reference, the stream pairs opened so far and the trace.
  \<open>devBackends\<close> is a JavaScript \<open>Map\<close>: an association list in insertion order, where
  \<open>set\<close> replaces the value of a present key in place and appends an absent one
  (\<open>AList.update\<close>), and \<open>delete\<close> drops the key (\<open>AList.delete\<close>).
  \<open>totalBackendsSpawned\<close> is a JavaScript number that only counts up by one; it is a
  natural number here.
\<close>

record DevServer =
  opts :: Options
  currentImageId :: "string option"
  hasFsWatcher :: bool
  devBackends :: "(string \<times> nat) list"
  totalBackendsSpawned :: nat
  objs :: "nat \<Rightarrow> Backend"
  nextRef :: nat
  streams :: "StreamPair list"
  trace :: "effect list"

definition has :: "(string \<times> nat) list \<Rightarrow> string \<Rightarrow> bool" where
  "has m k = (map_of m k \<noteq> None)"

definition values_of :: "DevServer \<Rightarrow> Backend list" where
  "values_of st = map (\<lambda>(k, r). objs st r) (devBackends st)"

subsection \<open>Console and messages\<close>

definition emit :: "effect list \<Rightarrow> DevServer \<Rightarrow> DevServer" where
  "emit es st = st\<lparr>trace := trace st @ es\<rparr>"

definition updateFooterAndLog :: "string list \<Rightarrow> DevServer \<Rightarrow> DevServer" where
  "updateFooterAndLog logLines st = emit [Console logLines] st"

definition clearFooter :: "DevServer \<Rightarrow> DevServer" where
  "clearFooter st = emit [ClearFooter] st"

definition image_not_set_error :: string where
  "image_not_set_error = ''spawnBackend called before currentImageId was set. This is a bug.''"

definition already_exists_error :: "string \<Rightarrow> string" where
  "already_exists_error n = ''Spawned backend '' @ n @ '' already exists in devBackends but ''
     @ [CHR 0x22] @ ''spawned=true'' @ [CHR 0x22] @ '' in spawn response. Some bug has occurred.''"

definition outdated_warning :: string where
  "outdated_warning = ''Warning: Spawn with lock returned a running backend with an outdated version of the session backend code. Blocking spawn.''"

definition outdated_error :: string where
  "outdated_error = ''dev-server spawn proxy: Spawn with lock returned a running backend with an outdated version of the session backend code. Blocking spawn.''"

definition foreign_warning :: string where
  "foreign_warning = ''Warning: Spawn with lock returned a running backend that was not originally spawned by this dev server. This may be dangerous. Blocking spawn.''"

definition foreign_error :: string where
  "foreign_error = ''dev-server spawn proxy: Spawn with lock returned a running backend that was not originally spawned by this dev server. This may be dangerous. Blocking spawn.''"

definition not_found_error :: "string \<Rightarrow> string" where
  "not_found_error n = ''Backend '' @ n @ '' not found in devBackends when attempting to stream status and logs''"

subsection \<open>Streaming\<close>

text \<open>
  \<open>streamStatusAndLogs\<close> up to its \<open>await\<close>: it marks the object as streaming, opens the
  status stream and the log stream, and stores the closure that closes both. The rest of the
  call runs when both streams have closed (\<open>onStreamsEnded\<close>). The callbacks it hands to the
  two streams are \<open>onStatus\<close> and \<open>onLog\<close>.
\<close>

definition streamStatusAndLogs :: "string \<Rightarrow> DevServer \<Rightarrow> unit result \<times> DevServer" where
  "streamStatusAndLogs n st =
     (case map_of (devBackends st) n of
        None \<Rightarrow> (Threw (Error (not_found_error n)), st)
      | Some r \<Rightarrow>
          let sid = length (streams st);
              st1 = st\<lparr>objs := (objs st)(r := (objs st r)\<lparr>isStreaming := True\<rparr>)\<rparr>;
              st2 = emit [StreamStatusOpen n sid, StreamLogsOpen n sid] st1;
              st3 = st2\<lparr>streams := streams st2 @ [\<lparr>backendName = n, backend = r, ended = False\<rparr>]\<rparr>;
              st4 = st3\<lparr>objs := (objs st3)(r := (objs st3 r)\<lparr>closeStreams := Some sid\<rparr>)\<rparr>
          in (Returned (), st4))"

text \<open>Calling the closure of pair \<open>c\<close>: \<open>statusStream.close()\<close>, then \<open>logsStream.close()\<close>.\<close>

definition call_closer :: "nat \<Rightarrow> DevServer \<Rightarrow> DevServer" where
  "call_closer c st = emit [StatusStreamClose c, LogsStreamClose c] st"

definition close_if_set :: "nat \<Rightarrow> DevServer \<Rightarrow> DevServer" where
  "close_if_set r st = (case closeStreams (objs st r) of None \<Rightarrow> st | Some c \<Rightarrow> call_closer c st)"

definition live_states :: "string list" where
  "live_states = [''Loading'', ''Starting'', ''Ready'']"

text \<open>
  The status callback of pair \<open>sid\<close>, called with \<open>status.state\<close>. It writes to the object
  it captured, whether or not the Registry still holds it, and deletes by name. A pair number
  that no call has opened has no callback, and the state stays as it is.
\<close>

definition onStatus :: "nat \<Rightarrow> string \<Rightarrow> DevServer \<Rightarrow> DevServer" where
  "onStatus sid curStatus st =
     (if sid < length (streams st) then
        let n = backendName (streams st ! sid);
            r = backend (streams st ! sid);
            st1 = st\<lparr>objs := (objs st)(r := (objs st r)\<lparr>lastStatus := Some curStatus\<rparr>)\<rparr>;
            st2 = updateFooterAndLog [''['' @ n @ ''] status: '' @ curStatus] st1
        in if \<not> List.member live_states curStatus then
             let st3 = close_if_set r st2
             in st3\<lparr>devBackends := AList.delete n (devBackends st3)\<rparr>
           else st2
      else st)"

definition onLog :: "nat \<Rightarrow> string \<Rightarrow> DevServer \<Rightarrow> DevServer" where
  "onLog sid line st =
     (if sid < length (streams st) then
        updateFooterAndLog [''['' @ backendName (streams st ! sid) @ ''] '' @ line] st
      else st)"

definition onStreamsEnded :: "nat \<Rightarrow> DevServer \<Rightarrow> DevServer" where
  "onStreamsEnded sid st =
     (if sid < length (streams st) then
        let n = backendName (streams st ! sid);
            r = backend (streams st ! sid);
            st1 = updateFooterAndLog [''['' @ n @ ''] streams ended''] st;
            st2 = st1\<lparr>objs := (objs st1)(r := (objs st1 r)\<lparr>isStreaming := False\<rparr>)\<rparr>
        in st2\<lparr>streams := (streams st2)[sid := (streams st2 ! sid)\<lparr>ended := True\<rparr>]\<rparr>
      else st)"

subsection \<open>Spawning\<close>

text \<open>
  The end of \<open>spawnBackend\<close> (lines 370 to 380 of the file): attach the streams unless the
  object is streaming already, redraw after a new spawn, return the response. The call of
  \<open>streamStatusAndLogs\<close> is not awaited, so what it throws is lost.
\<close>

definition attach_and_return ::
  "SpawnResult \<Rightarrow> DevServer \<Rightarrow> (js_error + SpawnResult) result \<times> DevServer" where
  "attach_and_return res st =
     (case map_of (devBackends st) (name res) of
        None \<Rightarrow> (Threw TypeError, st)
      | Some r \<Rightarrow>
          let st1 = (if \<not> isStreaming (objs st r)
                     then snd (streamStatusAndLogs (name res)
                            (updateFooterAndLog
                               [''Streaming status and logs for '' @ name res @ ''...'', ''''] st))
                     else st);
              st2 = (if spawned res then updateFooterAndLog [] st1 else st1)
          in (Returned (Inr res), st2))"

text \<open>
  \<open>spawnBackend\<close> after the remote spawn call has answered \<open>res\<close>. \<open>img\<close> is the image
  identifier the call read from \<open>currentImageId\<close> before it awaited the remote call, \<open>now\<close>
  what \<open>Date.now()\<close> answers. An \<open>Error\<close> the code returns is \<open>Returned (Inl e)\<close>, one
  it throws is \<open>Threw e\<close>.
\<close>

definition spawnBackend_resume ::
  "string \<Rightarrow> SpawnRequestBody \<Rightarrow> SpawnResult \<Rightarrow> nat \<Rightarrow> DevServer
     \<Rightarrow> (js_error + SpawnResult) result \<times> DevServer" where
  "spawnBackend_resume img body res now st =
     (if has (devBackends st) (name res) then
        if spawned res then (Threw (Error (already_exists_error (name res))), st)
        else
          (case map_of (devBackends st) (name res) of
             None \<Rightarrow> (Threw TypeError, st)
           | Some r \<Rightarrow>
               if imageId (objs st r) \<noteq> img
               then (Returned (Inl (Error outdated_error)), updateFooterAndLog [outdated_warning] st)
               else attach_and_return res st)
      else if spawned res then
        let c = BACKEND_LOG_COLORS ! (totalBackendsSpawned st mod length BACKEND_LOG_COLORS);
            st1 = st\<lparr>totalBackendsSpawned := totalBackendsSpawned st + 1\<rparr>;
            r = nextRef st1;
            st2 = st1\<lparr>objs := (objs st1)(r :=
                         \<lparr>spawnResult = res, imageId = img, spawnTime = now, lastStatus = None,
                          lock = body_lock body, isStreaming = False, color = c,
                          closeStreams = None\<rparr>),
                       nextRef := r + 1,
                       devBackends := AList.update (name res) r (devBackends st1)\<rparr>;
            st3 = updateFooterAndLog ['''', ''Spawned backend: '' @ name res] st2
        in attach_and_return res st3
      else (Returned (Inl (Error foreign_error)), updateFooterAndLog [foreign_warning] st))"

text \<open>
  The whole call: \<open>!imageId\<close> holds for \<open>null\<close> and for the empty string. \<open>response\<close> is
  what the remote spawn call answers, \<open>None\<close> when it rejects; no other handler runs
  between the call and its answer.
\<close>

definition spawnBackend ::
  "SpawnRequestBody \<Rightarrow> SpawnResult option \<Rightarrow> nat \<Rightarrow> DevServer
     \<Rightarrow> (js_error + SpawnResult) result \<times> DevServer" where
  "spawnBackend body response now st =
     (case currentImageId st of
        None \<Rightarrow> (Threw (Error image_not_set_error), st)
      | Some img \<Rightarrow>
          if img = [] then (Threw (Error image_not_set_error), st)
          else
            let st1 = emit [RemoteSpawn (service (opts st)) body] st
            in (case response of
                  None \<Rightarrow> (Threw RemoteFailure, st1)
                | Some res \<Rightarrow> spawnBackend_resume img body res now st1))"

subsection \<open>Building, terminating, rebuilding\<close>

text \<open>
  \<open>built\<close> is what \<open>buildImage\<close> returns (\<open>None\<close> when it throws), \<open>pushed\<close> whether
  the push succeeds.
\<close>

definition buildSessionBackend ::
  "string option \<Rightarrow> bool \<Rightarrow> DevServer \<Rightarrow> string result \<times> DevServer" where
  "buildSessionBackend built pushed st =
     (let st1 = clearFooter (updateFooterAndLog [''Building image...''] st);
          st2 = emit [BuildImage (dockerfile (opts st))] st1
      in case built of
           None \<Rightarrow> (Threw BuildFailure, st2)
         | Some img \<Rightarrow>
             let st3 = clearFooter (updateFooterAndLog [''Image built.'', ''Pushing image...''] st2);
                 st4 = emit [RemotePush (service (opts st)) img] st3
             in if \<not> pushed then (Threw RemoteFailure, st4)
                else (Returned img,
                      updateFooterAndLog
                        [''Image pushed to '' @ service (opts st)
                           @ '' service on the Jamsocket registry. ImageID: '' @ img] st4))"

fun digits :: "nat \<Rightarrow> string" where
  "digits n = (if n < 10 then [char_of (48 + n)] else digits (n div 10) @ [char_of (48 + n mod 10)])"

declare digits.simps [simp del]

fun join :: "string \<Rightarrow> string list \<Rightarrow> string" where
  "join sep [] = []"
| "join sep [x] = x"
| "join sep (x # y # ys) = x @ sep @ join sep (y # ys)"

text \<open>
  \<open>terminateBackends\<close>: one remote terminate call for each name, all issued before the
  first is awaited. \<open>fails\<close> tells which of the calls reject; \<open>Promise.all\<close> then rejects.
  The Registry is not touched.
\<close>

definition terminateBackends ::
  "string list \<Rightarrow> (string \<Rightarrow> bool) \<Rightarrow> DevServer \<Rightarrow> unit result \<times> DevServer" where
  "terminateBackends backends fails st =
     (let st1 = emit (map RemoteTerminate backends) st;
          st2 = updateFooterAndLog
                  [''Terminating '' @ digits (length backends) @ '' backend(s): ''
                     @ join '', '' backends] st1
      in (if list_ex fails backends then Threw RemoteFailure else Returned (), st2))"

definition terminateAllDevbackends ::
  "(string \<Rightarrow> bool) \<Rightarrow> DevServer \<Rightarrow> unit result \<times> DevServer" where
  "terminateAllDevbackends fails st =
     (let backendNames = map (\<lambda>b. name (spawnResult b)) (values_of st)
      in if length backendNames > 0
         then terminateBackends backendNames fails
                (updateFooterAndLog ['''', ''Terminating development backends...''] st)
         else (Returned (), updateFooterAndLog ['''', ''No development backends to terminate''] st))"

text \<open>\<open>rebuild\<close> once \<open>buildSessionBackend\<close> has returned \<open>img\<close>.\<close>

definition rebuild_resume ::
  "string \<Rightarrow> (string \<Rightarrow> bool) \<Rightarrow> DevServer \<Rightarrow> unit result \<times> DevServer" where
  "rebuild_resume img fails st =
     (let st1 = st\<lparr>currentImageId := Some img\<rparr>;
          outdatedBackends =
            map (\<lambda>b. name (spawnResult b))
              (filter (\<lambda>b. Some (imageId b) \<noteq> currentImageId st1) (values_of st1))
      in if length outdatedBackends > 0
         then terminateBackends outdatedBackends fails
                (updateFooterAndLog ['''', ''Terminating outdated backends...''] st1)
         else (Returned (), st1))"

definition rebuild ::
  "string option \<Rightarrow> bool \<Rightarrow> (string \<Rightarrow> bool) \<Rightarrow> DevServer \<Rightarrow> unit result \<times> DevServer" where
  "rebuild built pushed fails st =
     (case buildSessionBackend built pushed st of
        (Threw e, st1) \<Rightarrow> (Threw e, st1)
      | (Returned img, st1) \<Rightarrow> rebuild_resume img fails st1)"

subsection \<open>Shutdown\<close>

text \<open>
  The loop at the end of \<open>start\<close> over the entries of the Registry: call the closure of the
  entry if it has one, delete the entry. Deleting the entry a \<open>Map\<close> iteration stands on
  does not disturb the iteration.
\<close>

fun close_remaining :: "(string \<times> nat) list \<Rightarrow> DevServer \<Rightarrow> DevServer" where
  "close_remaining [] st = st"
| "close_remaining ((n, r) # es) st =
     close_remaining es
       (let st1 = close_if_set r st
        in st1\<lparr>devBackends := AList.delete n (devBackends st1)\<rparr>)"

text \<open>
  \<open>start\<close> from the moment \<open>timeToExit\<close> has resolved. When a terminate call rejects,
  \<open>start\<close> rejects there and the rest does not run.
\<close>

definition shutdown :: "(string \<Rightarrow> bool) \<Rightarrow> DevServer \<Rightarrow> unit result \<times> DevServer" where
  "shutdown fails st =
     (case terminateAllDevbackends fails (emit [ServerClose] st) of
        (Threw e, st1) \<Rightarrow> (Threw e, st1)
      | (Returned u, st1) \<Rightarrow>
          let st2 = clearFooter st1;
              st3 = close_remaining (devBackends st2) st2;
              st4 = (if hasFsWatcher st3 then emit [FsWatcherClose] st3 else st3)
          in (Returned (), emit [StdinRelease] st4))"

subsection \<open>The spawn proxy\<close>

text \<open>
  The route is matched by the regular expression
  \<^verbatim>\<open>/^\/user\/([^/]+)\/service\/([^/]+)\/spawn/\<close>. A group \<^verbatim>\<open>([^/]+)\<close> is followed by
  a slash in the pattern, so it matches exactly the longest run of characters other than a
  slash, which must not be empty. The pattern is anchored at the start only.
\<close>

fun strip_prefix :: "string \<Rightarrow> string \<Rightarrow> string option" where
  "strip_prefix [] s = Some s"
| "strip_prefix (p # ps) [] = None"
| "strip_prefix (p # ps) (c # cs) = (if p = c then strip_prefix ps cs else None)"

definition segment :: "string \<Rightarrow> (string \<times> string) option" where
  "segment s =
     (let seg = takeWhile (\<lambda>c. c \<noteq> CHR ''/'') s
      in if seg = [] then None else Some (seg, dropWhile (\<lambda>c. c \<noteq> CHR ''/'') s))"

definition route_match :: "string \<Rightarrow> (string \<times> string) option" where
  "route_match url =
     (case strip_prefix ''/user/'' url of
        None \<Rightarrow> None
      | Some s1 \<Rightarrow>
          (case segment s1 of
             None \<Rightarrow> None
           | Some (reqAccount, s2) \<Rightarrow>
               (case strip_prefix ''/service/'' s2 of
                  None \<Rightarrow> None
                | Some s3 \<Rightarrow>
                    (case segment s3 of
                       None \<Rightarrow> None
                     | Some (reqService, s4) \<Rightarrow>
                         (case strip_prefix ''/spawn'' s4 of
                            None \<Rightarrow> None
                          | Some rest \<Rightarrow> Some (reqAccount, reqService))))))"

datatype response_body = NoBody | ErrorText js_error | Json SpawnResult

datatype response = Response nat response_body

definition service_warning :: "string \<Rightarrow> string \<Rightarrow> string" where
  "service_warning reqService svc =
     ''Warning: Request for service '' @ reqService @ '' does not match service in config (''
       @ svc @ ''). Blocking spawn.''"

definition account_warning :: string where
  "account_warning = ''Warning: Request for account does not match logged-in account. Blocking spawn.''"

text \<open>
  The request handler of \<open>startSpawnProxy\<close>. \<open>url\<close> is \<open>req.url\<close>, the empty string
  when the request has none. \<open>body\<close> is what reading and parsing the request body gives,
  read only on the path that spawns: \<open>None\<close> when the text parses to \<open>null\<close>, else the
  fields the code reads (none of them set when the text does not parse and the body is the
  empty object, or when it parses to a number, a string, a boolean or an array). With
  \<open>null\<close>, \<open>spawnBackend\<close> throws before the remote call and touches nothing: its own error
  when no image is set, else the \<open>TypeError\<close> of reading \<open>body.env\<close>. The answer is
  \<open>None\<close> when \<open>spawnBackend\<close> throws: the handler then writes no response.
\<close>

definition handle_request ::
  "string \<Rightarrow> string \<Rightarrow> SpawnRequestBody option \<Rightarrow> SpawnResult option \<Rightarrow> nat \<Rightarrow> DevServer
     \<Rightarrow> response option \<times> DevServer" where
  "handle_request method url body response now st =
     (case (if method \<noteq> ''POST'' then None else route_match url) of
        None \<Rightarrow> (Some (Response 404 NoBody), st)
      | Some (reqAccount, reqService) \<Rightarrow>
          if service (opts st) \<noteq> reqService
          then (Some (Response 401 NoBody),
                updateFooterAndLog [service_warning reqService (service (opts st))] st)
          else if account (opts st) \<noteq> reqAccount
          then (Some (Response 401 NoBody), updateFooterAndLog [account_warning] st)
          else
            (case body of
               None \<Rightarrow> (None, st)
             | Some b \<Rightarrow>
                 (case spawnBackend b response now st of
                    (Threw e, st1) \<Rightarrow> (None, st1)
                  | (Returned (Inl e), st1) \<Rightarrow> (Some (Response 400 (ErrorText e)), st1)
                  | (Returned (Inr res), st1) \<Rightarrow> (Some (Response 200 (Json res)), st1))))"

subsection \<open>The session driver\<close>

text \<open>
  \<open>start\<close> up to \<open>await timeToExit\<close>: the first build, the proxy, the keyboard and, when
  \<open>watch\<close> is given, the file watcher (\<open>hasFsWatcher\<close> says that \<open>fsWatcher\<close> is set). The
  console line names the watched paths as given; the watcher gets each of them resolved
  against the working directory, and \<open>resolve\<close> stands for
  \<open>w => path.resolve(process.cwd(), w)\<close>. The callback of \<open>server.listen\<close> runs later, on
  its own.
\<close>

definition start_begin ::
  "string option \<Rightarrow> bool \<Rightarrow> (string \<Rightarrow> string) \<Rightarrow> DevServer \<Rightarrow> unit result \<times> DevServer" where
  "start_begin built pushed resolve st =
     (case buildSessionBackend built pushed (emit [Print ''Starting dev server...''] st) of
        (Threw e, st1) \<Rightarrow> (Threw e, st1)
      | (Returned img, st1) \<Rightarrow>
          let st2 = emit [ServerListen 8080, StdinListen] (st1\<lparr>currentImageId := Some img\<rparr>)
          in (Returned (),
              case watch (opts st2) of
                None \<Rightarrow> st2
              | Some w \<Rightarrow>
                  (emit [FsWatch (map resolve w)]
                     (updateFooterAndLog [''Watching '' @ join '', '' w @ '' for changes...'', '''']
                        st2))\<lparr>hasFsWatcher := True\<rparr>))"

definition proxy_listening :: "DevServer \<Rightarrow> DevServer" where
  "proxy_listening st =
     updateFooterAndLog ['''', ''Spawn proxy server running on http://localhost:8080'', ''''] st"

definition CTRL_C :: string where
  "CTRL_C = [CHR 0x03]"

text \<open>
  The keyboard handler and the file-change handler. The boolean says whether the handler
  resolved \<open>timeToExit\<close>: on the interrupt key, and when the rebuild or the termination
  throws. The three keys are different strings, so the three tests of the handler exclude
  each other.
\<close>

definition on_key ::
  "string \<Rightarrow> string option \<Rightarrow> bool \<Rightarrow> (string \<Rightarrow> bool) \<Rightarrow> DevServer \<Rightarrow> bool \<times> DevServer" where
  "on_key key built pushed fails st =
     (if key = CTRL_C then (True, st)
      else if key = ''b'' then
        (case rebuild built pushed fails st of
           (Threw e, st1) \<Rightarrow> (True, st1)
         | (Returned u, st1) \<Rightarrow> (False, st1))
      else if key = ''t'' then
        (case terminateAllDevbackends fails st of
           (Threw e, st1) \<Rightarrow> (True, st1)
         | (Returned u, st1) \<Rightarrow> (False, st1))
      else (False, st))"

definition on_change ::
  "string option \<Rightarrow> bool \<Rightarrow> (string \<Rightarrow> bool) \<Rightarrow> DevServer \<Rightarrow> bool \<times> DevServer" where
  "on_change built pushed fails st =
     (case rebuild built pushed fails st of
        (Threw e, st1) \<Rightarrow> (True, st1)
      | (Returned u, st1) \<Rightarrow> (False, st1))"

subsection \<open>The session as a sequence of handler runs\<close>

text \<open>
  Every way the server's state changes after construction: the start, the proxy beginning
  to listen, a key, a watched file changing, a request to the proxy, a spawn call or only
  its part after the remote answer, a stream attach, a status update, a log line, the end of
  a stream pair, a rebuild or only its part after the build, terminate-all, and the shutdown.
\<close>

datatype event =
    Start "string option" bool "string \<Rightarrow> string"
  | ProxyListening
  | Key string "string option" bool "string \<Rightarrow> bool"
  | FileChange "string option" bool "string \<Rightarrow> bool"
  | Request string string "SpawnRequestBody option" "SpawnResult option" nat
  | Spawn SpawnRequestBody "SpawnResult option" nat
  | SpawnResume string SpawnRequestBody SpawnResult nat
  | Attach string
  | StatusUpdate nat string
  | LogLine nat string
  | StreamsEnded nat
  | Rebuild "string option" bool "string \<Rightarrow> bool"
  | RebuildResume string "string \<Rightarrow> bool"
  | TerminateAll "string \<Rightarrow> bool"
  | Shutdown "string \<Rightarrow> bool"

fun step :: "DevServer \<Rightarrow> event \<Rightarrow> DevServer" where
  "step st (Start built pushed resolve) = snd (start_begin built pushed resolve st)"
| "step st ProxyListening = proxy_listening st"
| "step st (Key key built pushed fails) = snd (on_key key built pushed fails st)"
| "step st (FileChange built pushed fails) = snd (on_change built pushed fails st)"
| "step st (Request method url body response now) = snd (handle_request method url body response now st)"
| "step st (Spawn body response now) = snd (spawnBackend body response now st)"
| "step st (SpawnResume img body res now) = snd (spawnBackend_resume img body res now st)"
| "step st (Attach n) = snd (streamStatusAndLogs n st)"
| "step st (StatusUpdate sid s) = onStatus sid s st"
| "step st (LogLine sid l) = onLog sid l st"
| "step st (StreamsEnded sid) = onStreamsEnded sid st"
| "step st (Rebuild built pushed fails) = snd (rebuild built pushed fails st)"
| "step st (RebuildResume img fails) = snd (rebuild_resume img fails st)"
| "step st (TerminateAll fails) = snd (terminateAllDevbackends fails st)"
| "step st (Shutdown fails) = snd (shutdown fails st)"

definition run :: "DevServer \<Rightarrow> event list \<Rightarrow> DevServer" where
  "run st evs = foldl step st evs"

text \<open>
  A spawn call together with what runs while it awaits the remote call. \<open>spawnBackend_begin\<close>
  is the call up to the \<open>await\<close>: it reads the image identifier (line 326) and issues the
  remote call. \<open>between\<close> are the handler runs that take place before the answer arrives,
  so \<open>at_response\<close> is the state the answer finds. The rest of the call works with the
  image identifier read at the start, whatever \<open>currentImageId\<close> has become. With nothing in
  between this is \<open>spawnBackend\<close>.
\<close>

definition spawnBackend_begin :: "SpawnRequestBody \<Rightarrow> DevServer \<Rightarrow> string result \<times> DevServer" where
  "spawnBackend_begin body st =
     (case currentImageId st of
        None \<Rightarrow> (Threw (Error image_not_set_error), st)
      | Some img \<Rightarrow>
          if img = [] then (Threw (Error image_not_set_error), st)
          else (Returned img, emit [RemoteSpawn (service (opts st)) body] st))"

definition at_response :: "SpawnRequestBody \<Rightarrow> event list \<Rightarrow> DevServer \<Rightarrow> DevServer" where
  "at_response body between st = run (snd (spawnBackend_begin body st)) between"

definition spawnBackend_during ::
  "SpawnRequestBody \<Rightarrow> event list \<Rightarrow> SpawnResult option \<Rightarrow> nat \<Rightarrow> DevServer
     \<Rightarrow> (js_error + SpawnResult) result \<times> DevServer" where
  "spawnBackend_during body between response now st =
     (case spawnBackend_begin body st of
        (Threw e, st1) \<Rightarrow> (Threw e, st1)
      | (Returned img, st1) \<Rightarrow>
          (case response of
             None \<Rightarrow> (Threw RemoteFailure, run st1 between)
           | Some res \<Rightarrow> spawnBackend_resume img body res now (run st1 between)))"

text \<open>The calls a trace holds, by kind.\<close>

definition terminate_calls :: "effect list \<Rightarrow> string list" where
  "terminate_calls es = concat (map (\<lambda>e. case e of RemoteTerminate n \<Rightarrow> [n] | _ \<Rightarrow> []) es)"

definition spawn_calls :: "effect list \<Rightarrow> nat" where
  "spawn_calls es = length (filter (\<lambda>e. case e of RemoteSpawn s b \<Rightarrow> True | _ \<Rightarrow> False) es)"

definition closer_calls :: "nat \<Rightarrow> effect list \<Rightarrow> nat" where
  "closer_calls c es = length (filter (\<lambda>e. e = StatusStreamClose c) es)"

text \<open>
  Events delivered by the callbacks of stream pair \<open>sid\<close>, and status updates whose value
  is outside \<open>live_states\<close>.
\<close>

definition for_stream :: "nat \<Rightarrow> event \<Rightarrow> bool" where
  "for_stream sid e =
     (case e of StatusUpdate i s \<Rightarrow> i = sid | LogLine i l \<Rightarrow> i = sid | _ \<Rightarrow> False)"

definition terminal_update :: "event \<Rightarrow> bool" where
  "terminal_update e =
     (case e of StatusUpdate i s \<Rightarrow> \<not> List.member live_states s | _ \<Rightarrow> False)"

text \<open>What calling the closure of a Registry entry does, if the entry has one.\<close>

definition closer_effects :: "DevServer \<Rightarrow> string \<times> nat \<Rightarrow> effect list" where
  "closer_effects st e =
     (case closeStreams (objs st (snd e)) of
        None \<Rightarrow> []
      | Some c \<Rightarrow> [StatusStreamClose c, LogsStreamClose c])"

text \<open>The invariant of the Registry: a streaming entry has a closure.\<close>

definition registry_inv :: "DevServer \<Rightarrow> bool" where
  "registry_inv st =
     list_all (\<lambda>(n, r). isStreaming (objs st r) \<longrightarrow> closeStreams (objs st r) \<noteq> None)
       (devBackends st)"

subsection \<open>Example sessions\<close>

text \<open>
  A server for account \<open>acct\<close> and service \<open>svc\<close> whose first build gave image \<open>imgA\<close>,
  with an empty Registry; then the same server after it spawned backend \<open>b1\<close> and attached
  stream pair 0 to it; then after that stream pair has ended while \<open>b1\<close> stays registered.
  \<open>ex_rebuilt\<close> is the running server after a rebuild gave image \<open>imgB\<close>, and \<open>ex_two\<close>
  the same after it then spawned \<open>b2\<close>. \<open>never\<close> says that no terminate call rejects.
  \<open>ex_rebuild_key\<close> is the key \<open>b\<close> pressed with a build that gives \<open>imgB\<close>.
\<close>

definition ex_backend :: Backend where
  "ex_backend =
     \<lparr>spawnResult = \<lparr>name = ''none'', spawned = False\<rparr>, imageId = '''', spawnTime = 0,
      lastStatus = None, lock = None, isStreaming = False, color = cyan, closeStreams = None\<rparr>"

definition ex_server :: DevServer where
  "ex_server =
     \<lparr>opts = \<lparr>dockerfile = ''Dockerfile'', service = ''svc'', account = ''acct'', watch = None\<rparr>,
      currentImageId = Some ''imgA'', hasFsWatcher = False, devBackends = [],
      totalBackendsSpawned = 0, objs = (\<lambda>r. ex_backend), nextRef = 0, streams = [],
      trace = []\<rparr>"

definition ex_body :: SpawnRequestBody where
  "ex_body =
     \<lparr>env = None, grace_period_seconds = None, port = None, tag = None,
      require_bearer_token = None, body_lock = Some ''key''\<rparr>"

definition ex_new :: SpawnResult where
  "ex_new = \<lparr>name = ''b1'', spawned = True\<rparr>"

definition ex_reused :: SpawnResult where
  "ex_reused = \<lparr>name = ''b1'', spawned = False\<rparr>"

definition ex_running :: DevServer where
  "ex_running = snd (spawnBackend ex_body (Some ex_new) 5 ex_server)"


definition never :: "string \<Rightarrow> bool" where
  "never n = False"

definition ex_rebuilt :: DevServer where
  "ex_rebuilt = snd (rebuild (Some ''imgB'') True never ex_running)"

definition ex_two :: DevServer where
  "ex_two = snd (spawnBackend ex_body (Some \<lparr>name = ''b2'', spawned = True\<rparr>) 7 ex_rebuilt)"




section \<open>Properties\<close>

subsection \<open>Basic facts\<close>

lemma emit_fields [simp]:
  "opts (emit es st) = opts st"
  "currentImageId (emit es st) = currentImageId st"
  "hasFsWatcher (emit es st) = hasFsWatcher st"
  "devBackends (emit es st) = devBackends st"
  "totalBackendsSpawned (emit es st) = totalBackendsSpawned st"
  "objs (emit es st) = objs st"
  "nextRef (emit es st) = nextRef st"
  "streams (emit es st) = streams st"
  "trace (emit es st) = trace st @ es"
  by (simp_all add: emit_def)

lemma has_iff [simp]: "has m k \<longleftrightarrow> map_of m k \<noteq> None"
  by (simp add: has_def)

lemmas console_defs = updateFooterAndLog_def clearFooter_def call_closer_def close_if_set_def

lemma buildSessionBackend_ok:
  "buildSessionBackend (Some img) True st
     = (Returned img,
        emit [Console [''Building image...''], ClearFooter, BuildImage (dockerfile (opts st)),
              Console [''Image built.'', ''Pushing image...''], ClearFooter,
              RemotePush (service (opts st)) img,
              Console [''Image pushed to '' @ service (opts st)
                 @ '' service on the Jamsocket registry. ImageID: '' @ img]] st)"
  by (simp add: buildSessionBackend_def console_defs emit_def)

lemma ex_running_eq:
  "ex_running =
     \<lparr>opts = \<lparr>dockerfile = ''Dockerfile'', service = ''svc'', account = ''acct'', watch = None\<rparr>,
      currentImageId = Some ''imgA'', hasFsWatcher = False, devBackends = [(''b1'', 0)],
      totalBackendsSpawned = 1,
      objs = (\<lambda>r. ex_backend)(0 :=
               \<lparr>spawnResult = ex_new, imageId = ''imgA'', spawnTime = 5, lastStatus = None,
                lock = Some ''key'', isStreaming = True, color = cyan, closeStreams = Some 0\<rparr>),
      nextRef = 1,
      streams = [\<lparr>backendName = ''b1'', backend = 0, ended = False\<rparr>],
      trace = [RemoteSpawn ''svc'' ex_body, Console ['''', ''Spawned backend: b1''],
               Console [''Streaming status and logs for b1...'', ''''],
               StreamStatusOpen ''b1'' 0, StreamLogsOpen ''b1'' 0, Console []]\<rparr>"
  by (simp add: ex_running_def spawnBackend_def spawnBackend_resume_def attach_and_return_def
      streamStatusAndLogs_def console_defs emit_def BACKEND_LOG_COLORS_def ex_server_def ex_new_def
      ex_body_def)


subsection \<open>Spawn responses\<close>

text \<open>
  C2. When the name the remote spawn call returned has no entry in the Registry and
  \<open>spawned\<close> is false, the spawn operation returns an error (it does not throw and does not
  return the instance), writes its warning, and leaves the Registry as it was: no entry for
  the name is added.
\<close>

theorem foreign_backend_refused:
  assumes "map_of (devBackends st) (name res) = None" and "\<not> spawned res"
  shows "spawnBackend_resume img body res now st
           = (Returned (Inl (Error foreign_error)), updateFooterAndLog [foreign_warning] st)
         \<and> devBackends (snd (spawnBackend_resume img body res now st)) = devBackends st
         \<and> map_of (devBackends (snd (spawnBackend_resume img body res now st))) (name res) = None"
  using assms by (simp add: spawnBackend_resume_def updateFooterAndLog_def)

theorem foreign_backend_refused_witness:
  "map_of (devBackends ex_server) (name ex_reused) = None \<and> \<not> spawned ex_reused
   \<and> fst (spawnBackend_resume ''imgA'' ex_body ex_reused 5 ex_server)
       = Returned (Inl (Error foreign_error))
   \<and> devBackends (snd (spawnBackend_resume ''imgA'' ex_body ex_reused 5 ex_server)) = []"
proof -
  have h1: "map_of (devBackends ex_server) (name ex_reused) = None"
    by (simp add: ex_server_def)
  have h2: "\<not> spawned ex_reused"
    by (simp add: ex_reused_def)
  show ?thesis
    using h1 h2 foreign_backend_refused [OF h1 h2, of "''imgA''" ex_body 5]
    by (simp add: ex_server_def updateFooterAndLog_def)
qed

text \<open>
  C1, as the code has it. A response that names a backend already in the Registry and says
  \<open>spawned = true\<close> makes the spawn operation throw the inconsistency error, with the state
  untouched. A response that names a backend absent from the Registry and says
  \<open>spawned = false\<close> does not throw: the operation returns an error. So the operation
  returns the response as a success only if \<open>spawned\<close> is true exactly when the name was
  absent from the Registry when the response arrived.
\<close>

theorem spawn_consistency:
  "(map_of (devBackends st) (name res) \<noteq> None \<and> spawned res \<longrightarrow>
      spawnBackend_resume img body res now st
        = (Threw (Error (already_exists_error (name res))), st))
   \<and> (map_of (devBackends st) (name res) = None \<and> \<not> spawned res \<longrightarrow>
      fst (spawnBackend_resume img body res now st) = Returned (Inl (Error foreign_error)))
   \<and> (\<forall>x. fst (spawnBackend_resume img body res now st) = Returned (Inr x) \<longrightarrow>
        x = res \<and> (spawned res \<longleftrightarrow> map_of (devBackends st) (name res) = None))"
  by (auto simp add: spawnBackend_resume_def attach_and_return_def Let_def
      split: option.splits if_splits)

text \<open>
  The four combinations on the example servers: present and spawned throws, absent and not
  spawned returns the error, absent and spawned succeeds, present and not spawned (same
  image) succeeds.
\<close>

theorem spawn_consistency_witness:
  "fst (spawnBackend_resume ''imgA'' ex_body ex_new 6 ex_running)
     = Threw (Error (already_exists_error ''b1''))
   \<and> fst (spawnBackend_resume ''imgA'' ex_body ex_reused 6 ex_server)
     = Returned (Inl (Error foreign_error))
   \<and> fst (spawnBackend_resume ''imgA'' ex_body ex_new 6 ex_server) = Returned (Inr ex_new)
   \<and> spawned ex_new \<and> map_of (devBackends ex_server) (name ex_new) = None
   \<and> fst (spawnBackend_resume ''imgA'' ex_body ex_reused 6 ex_running) = Returned (Inr ex_reused)
   \<and> \<not> spawned ex_reused \<and> map_of (devBackends ex_running) (name ex_reused) \<noteq> None"
  using spawn_consistency [of ex_running ex_new "''imgA''" ex_body 6]
    spawn_consistency [of ex_server ex_reused "''imgA''" ex_body 6]
    spawn_consistency [of ex_server ex_new "''imgA''" ex_body 6]
    spawn_consistency [of ex_running ex_reused "''imgA''" ex_body 6]
  by (simp add: ex_running_eq ex_server_def ex_new_def ex_reused_def spawnBackend_resume_def
      attach_and_return_def streamStatusAndLogs_def console_defs BACKEND_LOG_COLORS_def)

text \<open>
  C1 as stated fails: on the server with the empty Registry, the response \<open>b1\<close> with
  \<open>spawned = false\<close> is a combination other than "spawned iff absent", and the operation
  returns an error instead of throwing the inconsistency error.
\<close>

theorem spawn_consistency_counterexample:
  "map_of (devBackends ex_server) (name ex_reused) = None \<and> spawned ex_reused = False
   \<and> fst (spawnBackend_resume ''imgA'' ex_body ex_reused 5 ex_server)
        = Returned (Inl (Error foreign_error))
   \<and> fst (spawnBackend_resume ''imgA'' ex_body ex_reused 5 ex_server)
        \<noteq> Threw (Error (already_exists_error (name ex_reused)))"
  by (simp add: spawnBackend_resume_def ex_server_def ex_reused_def console_defs)


text \<open>
  A spawn call whose await nothing interrupts is the atomic call; in general the call
  continues, in the state the answer finds, with the image identifier it read at its start.
\<close>

lemma spawnBackend_during_Nil:
  "spawnBackend_during body [] response now st = spawnBackend body response now st"
  by (simp add: spawnBackend_during_def spawnBackend_begin_def spawnBackend_def run_def Let_def
      split: option.splits)


lemma begin_image:
  "fst (spawnBackend_begin body st) = Returned img \<longleftrightarrow> currentImageId st = Some img \<and> img \<noteq> []"
  by (auto simp add: spawnBackend_begin_def split: option.splits)






lemma begin_fields [simp]:
  "devBackends (snd (spawnBackend_begin body st)) = devBackends st"
  "objs (snd (spawnBackend_begin body st)) = objs st"
  "currentImageId (snd (spawnBackend_begin body st)) = currentImageId st"
  "streams (snd (spawnBackend_begin body st)) = streams st"
  by (simp_all add: spawnBackend_begin_def split: option.splits)

lemma at_response_Nil [simp]: "at_response body [] st = snd (spawnBackend_begin body st)"
  by (simp add: at_response_def run_def)








subsection \<open>Terminate and rebuild\<close>

lemma terminate_calls_append [simp]:
  "terminate_calls (xs @ ys) = terminate_calls xs @ terminate_calls ys"
  by (simp add: terminate_calls_def)

lemma terminate_calls_map [simp]: "terminate_calls (map RemoteTerminate ns) = ns"
  by (induction ns) (simp_all add: terminate_calls_def)

lemma terminate_calls_simps [simp]:
  "terminate_calls [] = []"
  "terminate_calls (e # es) = (case e of RemoteTerminate n \<Rightarrow> [n] | _ \<Rightarrow> []) @ terminate_calls es"
  by (simp_all add: terminate_calls_def)

lemma terminateBackends_fields:
  "terminate_calls (trace (snd (terminateBackends backends fails st)))
     = terminate_calls (trace st) @ backends"
  "devBackends (snd (terminateBackends backends fails st)) = devBackends st"
  "objs (snd (terminateBackends backends fails st)) = objs st"
  "currentImageId (snd (terminateBackends backends fails st)) = currentImageId st"
  "streams (snd (terminateBackends backends fails st)) = streams st"
  "hasFsWatcher (snd (terminateBackends backends fails st)) = hasFsWatcher st"
  by (simp_all add: terminateBackends_def updateFooterAndLog_def Let_def)

lemma terminateAll_fields:
  "devBackends (snd (terminateAllDevbackends fails st)) = devBackends st"
  "objs (snd (terminateAllDevbackends fails st)) = objs st"
  "streams (snd (terminateAllDevbackends fails st)) = streams st"
  "hasFsWatcher (snd (terminateAllDevbackends fails st)) = hasFsWatcher st"
  "currentImageId (snd (terminateAllDevbackends fails st)) = currentImageId st"
  by (simp_all add: terminateAllDevbackends_def terminateBackends_def updateFooterAndLog_def Let_def)

text \<open>
  C7. For every list of names, whether or not a call rejects, \<open>terminateBackends\<close> issues
  one remote terminate call for each name of the list, in order, then writes one console
  line, and that is all: the Registry and every backend object are as before.
\<close>

theorem terminate_keeps_registry:
  "trace (snd (terminateBackends backends fails st))
     = trace st @ map RemoteTerminate backends
         @ [Console [''Terminating '' @ digits (length backends) @ '' backend(s): ''
                       @ join '', '' backends]]
   \<and> terminate_calls (trace (snd (terminateBackends backends fails st)))
     = terminate_calls (trace st) @ backends
   \<and> devBackends (snd (terminateBackends backends fails st)) = devBackends st
   \<and> objs (snd (terminateBackends backends fails st)) = objs st
   \<and> values_of (snd (terminateBackends backends fails st)) = values_of st"
  by (simp add: terminateBackends_def updateFooterAndLog_def values_of_def Let_def)

theorem terminate_keeps_registry_witness:
  "terminate_calls (trace (snd (terminateBackends [''b1'', ''zz''] never ex_running)))
     = [''b1'', ''zz'']
   \<and> devBackends (snd (terminateBackends [''b1'', ''zz''] never ex_running)) = [(''b1'', 0)]"
proof -
  have a: "terminate_calls (trace ex_running) = []" by (simp add: ex_running_eq)
  have b: "devBackends ex_running = [(''b1'', 0)]" by (simp add: ex_running_eq)
  from terminate_keeps_registry [of "[''b1'', ''zz'']" never ex_running] a b
  show ?thesis by simp
qed

text \<open>
  C5. A rebuild whose build and push succeed with image \<open>img\<close> makes \<open>img\<close> the current
  image and issues remote terminate calls for exactly the Registry entries whose \<open>imageId\<close>
  is not \<open>img\<close>, one call each, in Registry order. It leaves the Registry and all backend
  objects as they were, so an entry whose image is \<open>img\<close> keeps every field.
\<close>

theorem rebuild_scoping:
  "terminate_calls (trace (snd (rebuild (Some img) True fails st)))
     = terminate_calls (trace st)
         @ map (\<lambda>b. name (spawnResult b)) (filter (\<lambda>b. imageId b \<noteq> img) (values_of st))
   \<and> currentImageId (snd (rebuild (Some img) True fails st)) = Some img
   \<and> devBackends (snd (rebuild (Some img) True fails st)) = devBackends st
   \<and> objs (snd (rebuild (Some img) True fails st)) = objs st"
  by (simp add: rebuild_def buildSessionBackend_ok rebuild_resume_def Let_def
      terminateBackends_fields values_of_def updateFooterAndLog_def)

text \<open>A rebuild whose build or push fails changes neither the current image nor the Registry,
  and asks for no termination.\<close>

lemma rebuild_build_fails:
  assumes "built = None \<or> \<not> pushed"
  shows "fst (rebuild built pushed fails st)
           = Threw (if built = None then BuildFailure else RemoteFailure)
         \<and> terminate_calls (trace (snd (rebuild built pushed fails st))) = terminate_calls (trace st)
         \<and> currentImageId (snd (rebuild built pushed fails st)) = currentImageId st
         \<and> devBackends (snd (rebuild built pushed fails st)) = devBackends st
         \<and> objs (snd (rebuild built pushed fails st)) = objs st"
  using assms
  by (auto simp add: rebuild_def buildSessionBackend_def console_defs Let_def split: option.splits)

lemma ex_two_fields:
  "devBackends ex_two = [(''b1'', 0), (''b2'', 1)]"
  "imageId (objs ex_two 0) = ''imgA''"
  "imageId (objs ex_two 1) = ''imgB''"
  "name (spawnResult (objs ex_two 0)) = ''b1''"
  "terminate_calls (trace ex_two) = [''b1'']"
  by (simp_all add: ex_two_def ex_rebuilt_def rebuild_def buildSessionBackend_ok
      rebuild_resume_def terminateBackends_def spawnBackend_def spawnBackend_resume_def
      attach_and_return_def streamStatusAndLogs_def console_defs values_of_def ex_running_eq
      BACKEND_LOG_COLORS_def ex_new_def Let_def)

text \<open>
  With \<open>b1\<close> on image \<open>imgA\<close> and \<open>b2\<close> on \<open>imgB\<close>, a rebuild that gives \<open>imgB\<close> again asks
  to terminate \<open>b1\<close> only (the trace already held one such call from the rebuild before).
\<close>

theorem rebuild_scoping_witness:
  "terminate_calls (trace (snd (rebuild (Some ''imgB'') True never ex_two))) = [''b1'', ''b1'']
   \<and> devBackends (snd (rebuild (Some ''imgB'') True never ex_two)) = [(''b1'', 0), (''b2'', 1)]
   \<and> objs (snd (rebuild (Some ''imgB'') True never ex_two)) 1 = objs ex_two 1"
  using rebuild_scoping [of "''imgB''" never ex_two]
  by (simp add: ex_two_fields ex_two_fields [unfolded One_nat_def] values_of_def)

subsection \<open>Shutdown\<close>

lemma close_if_set_fields [simp]:
  "devBackends (close_if_set r st) = devBackends st"
  "objs (close_if_set r st) = objs st"
  "streams (close_if_set r st) = streams st"
  "hasFsWatcher (close_if_set r st) = hasFsWatcher st"
  "currentImageId (close_if_set r st) = currentImageId st"
  "trace (close_if_set r st) = trace st @ closer_effects st (n, r)"
  by (simp_all add: close_if_set_def call_closer_def closer_effects_def split: option.splits)

lemma close_remaining_fields:
  "objs (close_remaining es st) = objs st"
  "streams (close_remaining es st) = streams st"
  "hasFsWatcher (close_remaining es st) = hasFsWatcher st"
  "currentImageId (close_remaining es st) = currentImageId st"
  by (induction es st rule: close_remaining.induct) (simp_all add: Let_def)

lemma close_remaining_registry:
  "devBackends (close_remaining es st)
     = filter (\<lambda>p. fst p \<notin> fst ` set es) (devBackends st)"
proof (induction es st rule: close_remaining.induct)
  case (1 st)
  then show ?case by simp
next
  case (2 n r es st)
  have "AList.delete n (devBackends st) = filter (\<lambda>p. fst p \<noteq> n) (devBackends st)"
    by (auto simp add: AList.delete_eq intro!: filter_cong)
  with 2 show ?case
    by (auto simp add: Let_def intro: filter_cong)
qed

lemma close_remaining_trace:
  "trace (close_remaining es st) = trace st @ concat (map (closer_effects st) es)"
proof (induction es st rule: close_remaining.induct)
  case (1 st)
  then show ?case by simp
next
  case (2 n r es st)
  have "closer_effects (close_if_set r st\<lparr>devBackends := AList.delete n (devBackends st)\<rparr>)
          = closer_effects st"
    by (simp add: closer_effects_def fun_eq_iff)
  with 2 show ?case
    by (simp add: Let_def close_if_set_fields(6) [where n = n])
qed

text \<open>
  C8, as the code has it. When the shutdown completes (no terminate call rejected), the
  Registry is empty, and between redrawing the console and releasing the input the closure
  of every entry that had one has been called, once per entry, in Registry order. The
  shutdown does not wait for a stream to close: it consumes no closed signal, so no stream
  pair changes its \<open>ended\<close> flag, and the input is released right after the closures were
  called.
\<close>

theorem shutdown_completeness:
  assumes "shutdown fails st = (Returned u, st')"
  shows "devBackends st' = []
         \<and> trace st'
             = trace (snd (terminateAllDevbackends fails (emit [ServerClose] st)))
                 @ [ClearFooter]
                 @ concat (map (closer_effects st) (devBackends st))
                 @ (if hasFsWatcher st then [FsWatcherClose] else [])
                 @ [StdinRelease]
         \<and> streams st' = streams st
         \<and> objs st' = objs st"
proof -
  obtain o1 s1 where t: "terminateAllDevbackends fails (emit [ServerClose] st) = (o1, s1)"
    by (cases "terminateAllDevbackends fails (emit [ServerClose] st)")
  from t have f: "devBackends s1 = devBackends st" "objs s1 = objs st" "streams s1 = streams st"
    "hasFsWatcher s1 = hasFsWatcher st"
    using terminateAll_fields [of fails "emit [ServerClose] st"] by simp_all
  have ce: "closer_effects (clearFooter s1) = closer_effects st"
    by (simp add: closer_effects_def fun_eq_iff clearFooter_def f)
  from assms t obtain v where o1: "o1 = Returned v"
    by (cases o1) (simp_all add: shutdown_def)
  from assms t o1 have st': "st' = emit [StdinRelease]
      (let st3 = close_remaining (devBackends (clearFooter s1)) (clearFooter s1)
       in if hasFsWatcher st3 then emit [FsWatcherClose] st3 else st3)"
    by (simp add: shutdown_def Let_def)
  show ?thesis
    using t
    by (simp add: st' Let_def close_remaining_registry close_remaining_trace
        close_remaining_fields clearFooter_def f ce [unfolded clearFooter_def])
qed

theorem shutdown_completeness_witness:
  "fst (shutdown never ex_running) = Returned ()
   \<and> devBackends (snd (shutdown never ex_running)) = []
   \<and> closer_effects ex_running (''b1'', 0) = [StatusStreamClose 0, LogsStreamClose 0]
   \<and> trace (snd (shutdown never ex_running))
        = trace (snd (terminateAllDevbackends never (emit [ServerClose] ex_running)))
            @ [ClearFooter, StatusStreamClose 0, LogsStreamClose 0, StdinRelease]"
proof -
  have o: "fst (shutdown never ex_running) = Returned ()"
    by (simp add: ex_running_eq shutdown_def terminateAllDevbackends_def terminateBackends_def
      values_of_def console_defs never_def ex_new_def Let_def)
  then have h: "shutdown never ex_running = (Returned (), snd (shutdown never ex_running))"
    by (simp add: prod_eq_iff)
  have c: "closer_effects ex_running (''b1'', 0) = [StatusStreamClose 0, LogsStreamClose 0]"
    by (simp add: closer_effects_def ex_running_eq)
  have d: "devBackends ex_running = [(''b1'', 0)]" "hasFsWatcher ex_running = False"
    by (simp_all add: ex_running_eq)
  from shutdown_completeness [OF h] o c d show ?thesis
    by simp
qed

text \<open>
  C8 as stated fails: the running server opened stream pair 0 for \<open>b1\<close>; its shutdown
  completes with the Registry empty while that pair has not ended.
\<close>

theorem shutdown_completeness_counterexample:
  "fst (shutdown never ex_running) = Returned ()
   \<and> devBackends (snd (shutdown never ex_running)) = []
   \<and> StreamStatusOpen ''b1'' 0 \<in> set (trace ex_running)
   \<and> streams (snd (shutdown never ex_running))
        = [\<lparr>backendName = ''b1'', backend = 0, ended = False\<rparr>]"
  by (simp add: ex_running_eq shutdown_def terminateAllDevbackends_def terminateBackends_def
      values_of_def console_defs never_def ex_new_def Let_def)

subsection \<open>Status updates\<close>

lemma delete_absent: "map_of m k = None \<Longrightarrow> AList.delete k m = m"
  by (simp add: map_of_eq_None_iff)

lemma closer_calls_append [simp]:
  "closer_calls c (xs @ ys) = closer_calls c xs + closer_calls c ys"
  by (simp add: closer_calls_def)

lemma closer_calls_simps [simp]:
  "closer_calls c [] = 0"
  "closer_calls c (e # es) = (if e = StatusStreamClose c then 1 else 0) + closer_calls c es"
  by (simp_all add: closer_calls_def)

lemma onStatus_terminal:
  assumes "sid < length (streams st)"
    and "closeStreams (objs st (backend (streams st ! sid))) = Some c"
    and "\<not> List.member live_states s"
  shows "onStatus sid s st =
           st\<lparr>objs := (objs st)(backend (streams st ! sid) :=
                      (objs st (backend (streams st ! sid)))\<lparr>lastStatus := Some s\<rparr>),
              trace := trace st @ [Console [''['' @ backendName (streams st ! sid) @ ''] status: '' @ s],
                          StatusStreamClose c, LogsStreamClose c],
              devBackends := AList.delete (backendName (streams st ! sid)) (devBackends st)\<rparr>"
  using assms by (simp add: onStatus_def console_defs emit_def Let_def)

lemma onStatus_live:
  assumes "sid < length (streams st)" and "List.member live_states s"
  shows "onStatus sid s st =
           st\<lparr>objs := (objs st)(backend (streams st ! sid) :=
                      (objs st (backend (streams st ! sid)))\<lparr>lastStatus := Some s\<rparr>),
              trace := trace st @ [Console [''['' @ backendName (streams st ! sid) @ ''] status: '' @ s]]\<rparr>"
  using assms by (simp add: onStatus_def console_defs emit_def Let_def)

lemma later_events:
  assumes "list_all (for_stream sid) later"
    and "sid < length (streams st)"
    and "closeStreams (objs st (backend (streams st ! sid))) = Some c"
    and "map_of (devBackends st) (backendName (streams st ! sid)) = None"
  shows "devBackends (run st later) = devBackends st
         \<and> closer_calls c (trace (run st later))
             = closer_calls c (trace st) + length (filter terminal_update later)
         \<and> length (trace (run st later)) \<ge> length (trace st) + length later"
  using assms
proof (induction later arbitrary: st)
  case Nil
  then show ?case by (simp add: run_def)
next
  case (Cons e later)
  let ?r = "backend (streams st ! sid)"
  let ?n = "backendName (streams st ! sid)"
  from Cons.prems(1) have fe: "for_stream sid e" and fl: "list_all (for_stream sid) later"
    by simp_all
  have keep: "sid < length (streams (step st e))
      \<and> streams (step st e) = streams st
      \<and> closeStreams (objs (step st e) ?r) = Some c
      \<and> devBackends (step st e) = devBackends st
      \<and> closer_calls c (trace (step st e))
           = closer_calls c (trace st) + (if terminal_update e then 1 else 0)
      \<and> length (trace (step st e)) \<ge> length (trace st) + 1"
  proof (cases e)
    case (StatusUpdate i s)
    with fe have i: "i = sid" by (simp add: for_stream_def)
    show ?thesis
    proof (cases "List.member live_states s")
      case True
      with StatusUpdate i Cons.prems show ?thesis
        by (simp add: onStatus_live terminal_update_def)
    next
      case False
      with StatusUpdate i Cons.prems show ?thesis
        by (simp add: onStatus_terminal terminal_update_def delete_absent)
    qed
  next
    case (LogLine i l)
    with fe have i: "i = sid" by (simp add: for_stream_def)
    with LogLine Cons.prems show ?thesis
      by (simp add: onLog_def updateFooterAndLog_def terminal_update_def)
  qed (use fe in \<open>simp_all add: for_stream_def\<close>)
  then have st: "streams (step st e) = streams st" by simp
  have "devBackends (run (step st e) later) = devBackends (step st e)
         \<and> closer_calls c (trace (run (step st e) later))
             = closer_calls c (trace (step st e)) + length (filter terminal_update later)
         \<and> length (trace (run (step st e) later)) \<ge> length (trace (step st e)) + length later"
    using keep Cons.prems(4) by (intro Cons.IH [OF fl]) (simp_all add: st)
  with keep show ?case
    by (simp add: run_def)
qed

text \<open>
  C4, as the code has it. Stream pair \<open>sid\<close> is attached to backend \<open>n\<close>, whose object
  holds the closure \<open>c\<close>. A status update with a value outside Loading, Starting, Ready
  removes the entry of \<open>n\<close> from the Registry and calls the closure once. Status updates
  and log lines that the same pair delivers afterwards (\<open>later\<close>) raise no error (the
  callbacks have no failing path) and leave the Registry as it is, but they are not ignored:
  each writes its console line, and each further status update outside the three live values
  calls the closure again.
\<close>

theorem terminal_cleanup:
  assumes "sid < length (streams st)"
    and "backendName (streams st ! sid) = n"
    and "backend (streams st ! sid) = r"
    and "closeStreams (objs st r) = Some c"
    and "\<not> List.member live_states s"
    and "list_all (for_stream sid) later"
  shows "map_of (devBackends (onStatus sid s st)) n = None
         \<and> trace (onStatus sid s st)
             = trace st @ [Console [''['' @ n @ ''] status: '' @ s],
                           StatusStreamClose c, LogsStreamClose c]
         \<and> closer_calls c (trace (onStatus sid s st)) = closer_calls c (trace st) + 1
         \<and> devBackends (run (onStatus sid s st) later) = devBackends (onStatus sid s st)
         \<and> closer_calls c (trace (run (onStatus sid s st) later))
             = closer_calls c (trace st) + 1 + length (filter terminal_update later)
         \<and> length (trace (run (onStatus sid s st) later))
             \<ge> length (trace (onStatus sid s st)) + length later"
proof -
  let ?st1 = "onStatus sid s st"
  have eq: "?st1 = st\<lparr>objs := (objs st)(r := (objs st r)\<lparr>lastStatus := Some s\<rparr>),
              trace := trace st @ [Console [''['' @ n @ ''] status: '' @ s],
                          StatusStreamClose c, LogsStreamClose c],
              devBackends := AList.delete n (devBackends st)\<rparr>"
    using onStatus_terminal [of sid st c s] assms by simp
  have gone: "map_of (devBackends ?st1) n = None"
    by (simp add: eq AList.delete_conv')
  have p2: "sid < length (streams ?st1)"
    by (simp add: eq assms(1))
  have p3: "closeStreams (objs ?st1 (backend (streams ?st1 ! sid))) = Some c"
    by (simp add: eq assms(3,4))
  have p4: "map_of (devBackends ?st1) (backendName (streams ?st1 ! sid)) = None"
    by (simp add: eq assms(2) AList.delete_conv')
  have l: "devBackends (run ?st1 later) = devBackends ?st1
         \<and> closer_calls c (trace (run ?st1 later))
             = closer_calls c (trace ?st1) + length (filter terminal_update later)
         \<and> length (trace (run ?st1 later)) \<ge> length (trace ?st1) + length later"
    by (rule later_events [OF assms(6) p2 p3 p4])
  show ?thesis
    using gone l by (simp add: eq)
qed

text \<open>
  C4 as stated fails: after the first terminal status update the closure has been called
  once, and a second terminal status update on the same stream makes it twice.
\<close>

theorem terminal_cleanup_counterexample:
  "closer_calls 0 (trace ex_running) = 0
   \<and> map_of (devBackends (run ex_running [StatusUpdate 0 ''Terminated''])) ''b1'' = None
   \<and> closer_calls 0 (trace (run ex_running [StatusUpdate 0 ''Terminated''])) = 1
   \<and> closer_calls 0 (trace (run ex_running
         [StatusUpdate 0 ''Terminated'', StatusUpdate 0 ''Terminated''])) = 2"
  by (simp add: run_def ex_running_eq onStatus_def console_defs live_states_def Let_def)

theorem terminal_cleanup_witness:
  "\<not> List.member live_states ''Swept''
   \<and> list_all (for_stream 0) [LogLine 0 ''bye'', StatusUpdate 0 ''Ready'', StatusUpdate 0 ''Swept'']
   \<and> map_of (devBackends (onStatus 0 ''Swept'' ex_running)) ''b1'' = None
   \<and> closer_calls 0 (trace (onStatus 0 ''Swept'' ex_running)) = 1
   \<and> devBackends (run (onStatus 0 ''Swept'' ex_running)
        [LogLine 0 ''bye'', StatusUpdate 0 ''Ready'', StatusUpdate 0 ''Swept'']) = []
   \<and> closer_calls 0 (trace (run (onStatus 0 ''Swept'' ex_running)
        [LogLine 0 ''bye'', StatusUpdate 0 ''Ready'', StatusUpdate 0 ''Swept''])) = 2"
proof -
  have h1: "0 < length (streams ex_running)" by (simp add: ex_running_eq)
  have h2: "backendName (streams ex_running ! 0) = ''b1''" by (simp add: ex_running_eq)
  have h3: "backend (streams ex_running ! 0) = 0" by (simp add: ex_running_eq)
  have h4: "closeStreams (objs ex_running 0) = Some 0" by (simp add: ex_running_eq)
  have h5: "\<not> List.member live_states ''Swept''" by (simp add: live_states_def)
  have h6: "list_all (for_stream 0)
      [LogLine 0 ''bye'', StatusUpdate 0 ''Ready'', StatusUpdate 0 ''Swept'']"
    by (simp add: for_stream_def)
  have t: "filter terminal_update
      [LogLine 0 ''bye'', StatusUpdate 0 ''Ready'', StatusUpdate 0 ''Swept'']
      = [StatusUpdate 0 ''Swept'']"
    by (simp add: terminal_update_def live_states_def)
  have z: "closer_calls 0 (trace ex_running) = 0" by (simp add: ex_running_eq)
  have d: "devBackends (onStatus 0 ''Swept'' ex_running) = []"
    by (simp add: ex_running_eq onStatus_def console_defs live_states_def Let_def)
  from terminal_cleanup [OF h1 h2 h3 h4 h5 h6] h5 h6 t z d show ?thesis
    by simp
qed

subsection \<open>The invariant of the Registry\<close>

lemma registry_inv_iff:
  "registry_inv st \<longleftrightarrow>
     (\<forall>(n, r) \<in> set (devBackends st). isStreaming (objs st r) \<longrightarrow> closeStreams (objs st r) \<noteq> None)"
  by (simp add: registry_inv_def list_all_iff)

lemma registry_inv_emit [simp]: "registry_inv (emit es st) = registry_inv st"
  by (simp add: registry_inv_iff)

lemma registry_inv_trace [simp]: "registry_inv (st\<lparr>trace := t\<rparr>) = registry_inv st"
  by (simp add: registry_inv_iff)

lemma set_delete_subset: "set (AList.delete k m) \<subseteq> set m"
  by (auto simp add: AList.delete_eq)

lemma set_update_subset: "set (AList.update k v m) \<subseteq> insert (k, v) (set m)"
  by (induction m) auto

lemma inv_streamStatusAndLogs:
  "registry_inv st \<Longrightarrow> registry_inv (snd (streamStatusAndLogs n st))"
  by (auto simp add: streamStatusAndLogs_def registry_inv_iff Let_def split: option.splits)

lemma inv_onStatus: "registry_inv st \<Longrightarrow> registry_inv (onStatus sid s st)"
  using set_delete_subset
  by (fastforce simp add: onStatus_def registry_inv_iff console_defs Let_def split: option.splits)

lemma inv_onLog: "registry_inv st \<Longrightarrow> registry_inv (onLog sid l st)"
  by (simp add: onLog_def updateFooterAndLog_def)

lemma inv_onStreamsEnded: "registry_inv st \<Longrightarrow> registry_inv (onStreamsEnded sid st)"
  by (auto simp add: onStreamsEnded_def registry_inv_iff updateFooterAndLog_def Let_def)

lemma inv_attach_and_return:
  "registry_inv st \<Longrightarrow> registry_inv (snd (attach_and_return res st))"
  using inv_streamStatusAndLogs [of "updateFooterAndLog l st" for l]
  by (simp add: attach_and_return_def updateFooterAndLog_def Let_def split: option.splits)

lemma inv_new_entry:
  assumes "registry_inv st"
  shows "registry_inv (st\<lparr>totalBackendsSpawned := t,
           objs := (objs st)(r := b\<lparr>isStreaming := False\<rparr>), nextRef := q,
           devBackends := AList.update k r (devBackends st)\<rparr>)"
  using assms set_update_subset [of k r "devBackends st"]
  by (fastforce simp add: registry_inv_iff)

lemma inv_spawnBackend_resume:
  assumes "registry_inv st"
  shows "registry_inv (snd (spawnBackend_resume img body res now st))"
proof -
  let ?c = "BACKEND_LOG_COLORS ! (totalBackendsSpawned st mod length BACKEND_LOG_COLORS)"
  let ?b = "\<lparr>spawnResult = res, imageId = img, spawnTime = now, lastStatus = None,
             lock = body_lock body, isStreaming = False, color = ?c, closeStreams = None\<rparr>"
  have "registry_inv (st\<lparr>totalBackendsSpawned := totalBackendsSpawned st + 1,
           objs := (objs st)(nextRef st := ?b\<lparr>isStreaming := False\<rparr>), nextRef := nextRef st + 1,
           devBackends := AList.update (name res) (nextRef st) (devBackends st)\<rparr>)"
    by (rule inv_new_entry [OF assms])
  then show ?thesis
    using assms
    by (auto simp add: spawnBackend_resume_def Let_def updateFooterAndLog_def
        inv_attach_and_return split: option.splits)
qed

lemma inv_spawnBackend:
  "registry_inv st \<Longrightarrow> registry_inv (snd (spawnBackend body response now st))"
  by (simp add: spawnBackend_def Let_def inv_spawnBackend_resume split: option.splits)

lemma inv_handle_request:
  assumes "registry_inv st"
  shows "registry_inv (snd (handle_request method url body response now st))"
proof (cases body)
  case None
  with assms show ?thesis
    by (auto simp add: handle_request_def updateFooterAndLog_def split: option.splits)
next
  case (Some b)
  with assms inv_spawnBackend [of st b response now] show ?thesis
    by (auto simp add: handle_request_def updateFooterAndLog_def
        split: option.splits prod.splits result.splits sum.splits)
qed

lemma inv_terminateBackends:
  "registry_inv st \<Longrightarrow> registry_inv (snd (terminateBackends backends fails st))"
  by (simp add: terminateBackends_def updateFooterAndLog_def Let_def)

lemma inv_terminateAll:
  "registry_inv st \<Longrightarrow> registry_inv (snd (terminateAllDevbackends fails st))"
  by (simp add: terminateAllDevbackends_def updateFooterAndLog_def Let_def inv_terminateBackends)

lemma inv_currentImageId [simp]: "registry_inv (st\<lparr>currentImageId := i\<rparr>) = registry_inv st"
  by (simp add: registry_inv_iff)

lemma inv_rebuild_resume:
  "registry_inv st \<Longrightarrow> registry_inv (snd (rebuild_resume img fails st))"
  by (simp add: rebuild_resume_def updateFooterAndLog_def Let_def inv_terminateBackends)

lemma inv_buildSessionBackend:
  "registry_inv st \<Longrightarrow> registry_inv (snd (buildSessionBackend built pushed st))"
  by (simp add: buildSessionBackend_def console_defs Let_def split: option.splits)

lemma inv_rebuild:
  "registry_inv st \<Longrightarrow> registry_inv (snd (rebuild built pushed fails st))"
  using inv_buildSessionBackend [of st built pushed]
  by (auto simp add: rebuild_def inv_rebuild_resume split: prod.splits result.splits)

lemma inv_hasFsWatcher [simp]: "registry_inv (st\<lparr>hasFsWatcher := w\<rparr>) = registry_inv st"
  by (simp add: registry_inv_iff)

lemma inv_start_begin:
  "registry_inv st \<Longrightarrow> registry_inv (snd (start_begin built pushed resolve st))"
  using inv_buildSessionBackend [of "emit [Print ''Starting dev server...''] st" built pushed]
  by (auto simp add: start_begin_def updateFooterAndLog_def Let_def
      split: prod.splits result.splits option.splits)

lemma inv_on_change:
  "registry_inv st \<Longrightarrow> registry_inv (snd (on_change built pushed fails st))"
  using inv_rebuild [of st built pushed fails]
  by (auto simp add: on_change_def split: prod.splits result.splits)

lemma inv_on_key:
  "registry_inv st \<Longrightarrow> registry_inv (snd (on_key key built pushed fails st))"
  using inv_rebuild [of st built pushed fails] inv_terminateAll [of st fails]
  by (auto simp add: on_key_def split: prod.splits result.splits)

lemma inv_shutdown:
  assumes "registry_inv st"
  shows "registry_inv (snd (shutdown fails st))"
proof (cases "terminateAllDevbackends fails (emit [ServerClose] st)")
  case (Pair o1 s1)
  show ?thesis
  proof (cases o1)
    case (Threw e)
    with Pair have "snd (shutdown fails st) = snd (terminateAllDevbackends fails (emit [ServerClose] st))"
      by (simp add: shutdown_def)
    with assms show ?thesis
      by (simp add: inv_terminateAll)
  next
    case (Returned u)
    with Pair have "devBackends (snd (shutdown fails st)) = []"
      by (simp add: shutdown_def Let_def close_remaining_registry)
    then show ?thesis
      by (simp add: registry_inv_def)
  qed
qed

lemma inv_step: "registry_inv st \<Longrightarrow> registry_inv (step st e)"
  by (cases e)
    (simp_all add: inv_start_begin inv_on_key inv_on_change proxy_listening_def
      updateFooterAndLog_def inv_handle_request inv_spawnBackend inv_spawnBackend_resume
      inv_streamStatusAndLogs inv_onStatus inv_onLog inv_onStreamsEnded inv_rebuild
      inv_rebuild_resume inv_terminateAll inv_shutdown)

text \<open>
  C9. Every Registry entry whose \<open>isStreaming\<close> is true has a closure in \<open>closeStreams\<close>:
  this holds of a server with an empty Registry (as constructed), every handler run keeps it
  (the start, a key, a file change, a request to the proxy, a spawn or its part after the
  remote answer, a stream attach, a status update with its terminal cleanup, a log line, the
  end of a stream pair, a rebuild, terminate-all, the shutdown), and so it holds after every
  sequence of handler runs.
\<close>

theorem streaming_has_closer:
  "(devBackends st = [] \<longrightarrow> registry_inv st)
   \<and> (registry_inv st \<longrightarrow> registry_inv (step st e))
   \<and> (registry_inv st \<longrightarrow> registry_inv (run st evs))"
proof -
  have a: "devBackends st = [] \<longrightarrow> registry_inv st"
    by (simp add: registry_inv_def)
  have b: "registry_inv st \<longrightarrow> registry_inv (step st e)"
    by (simp add: inv_step)
  have "registry_inv s \<Longrightarrow> registry_inv (foldl step s evs)" for s
    by (induction evs arbitrary: s) (simp_all add: inv_step)
  then have c: "registry_inv st \<longrightarrow> registry_inv (run st evs)"
    by (simp add: run_def)
  from a b c show ?thesis
    by blast
qed

theorem streaming_has_closer_witness:
  "devBackends ex_server = [] \<and> registry_inv ex_server
   \<and> registry_inv (run ex_server [Spawn ex_body (Some ex_new) 5, StatusUpdate 0 ''Ready''])
   \<and> devBackends (run ex_server [Spawn ex_body (Some ex_new) 5, StatusUpdate 0 ''Ready''])
        = [(''b1'', 0)]
   \<and> isStreaming (objs (run ex_server [Spawn ex_body (Some ex_new) 5, StatusUpdate 0 ''Ready'']) 0)
   \<and> closeStreams (objs (run ex_server [Spawn ex_body (Some ex_new) 5, StatusUpdate 0 ''Ready'']) 0)
        = Some 0"
proof -
  have e: "devBackends ex_server = []" by (simp add: ex_server_def)
  have r: "run ex_server [Spawn ex_body (Some ex_new) 5, StatusUpdate 0 ''Ready'']
             = onStatus 0 ''Ready'' ex_running"
    by (simp add: run_def ex_running_def)
  from streaming_has_closer [of ex_server "Spawn ex_body (Some ex_new) 5"
      "[Spawn ex_body (Some ex_new) 5, StatusUpdate 0 ''Ready'']"] e
  show ?thesis
    by (simp add: r ex_running_eq onStatus_def console_defs live_states_def Let_def)
qed

subsection \<open>The route guard of the spawn proxy\<close>

text \<open>
  What holds of the guard: a request that is not a POST, or whose URL the pattern does not
  match, is answered 404 with the state untouched; a POST the pattern matches with another
  account or another service is answered 401 without a remote spawn call.
\<close>

lemma proxy_not_post:
  "method \<noteq> ''POST'' \<Longrightarrow>
     handle_request method url body response now st = (Some (Response 404 NoBody), st)"
  by (simp add: handle_request_def)

lemma proxy_no_route:
  "route_match url = None \<Longrightarrow>
     handle_request method url body response now st = (Some (Response 404 NoBody), st)"
  by (simp add: handle_request_def)

lemma spawn_calls_simps [simp]:
  "spawn_calls [] = 0"
  "spawn_calls (xs @ ys) = spawn_calls xs + spawn_calls ys"
  "spawn_calls (e # es) = (case e of RemoteSpawn s b \<Rightarrow> 1 | _ \<Rightarrow> 0) + spawn_calls es"
  by (simp_all add: spawn_calls_def split: effect.splits)

lemma proxy_mismatch:
  assumes "route_match url = Some (reqAccount, reqService)"
    and "reqAccount \<noteq> account (opts st) \<or> reqService \<noteq> service (opts st)"
  shows "fst (handle_request ''POST'' url body response now st) = Some (Response 401 NoBody)
         \<and> spawn_calls (trace (snd (handle_request ''POST'' url body response now st)))
              = spawn_calls (trace st)
         \<and> devBackends (snd (handle_request ''POST'' url body response now st)) = devBackends st"
  using assms by (auto simp add: handle_request_def updateFooterAndLog_def)

text \<open>A body that parses to \<open>null\<close> on an accepted route: no response, no remote call.\<close>

lemma proxy_null_body:
  assumes "route_match url = Some (account (opts st), service (opts st))"
  shows "handle_request ''POST'' url None response now st = (None, st)"
  using assms by (simp add: handle_request_def)

lemma strip_prefix_append [simp]: "strip_prefix p (p @ s) = Some s"
  by (induction p) simp_all

lemma segment_slash:
  assumes "a \<noteq> []" and "CHR ''/'' \<notin> set a"
  shows "segment (a @ CHR ''/'' # s) = Some (a, CHR ''/'' # s)"
proof -
  have p: "\<And>x. x \<in> set a \<Longrightarrow> x \<noteq> CHR ''/''"
    using assms(2) by auto
  have "takeWhile (\<lambda>c. c \<noteq> CHR ''/'') (a @ CHR ''/'' # s) = a"
    using p by simp
  moreover have "dropWhile (\<lambda>c. c \<noteq> CHR ''/'') (a @ CHR ''/'' # s) = CHR ''/'' # s"
    using p by simp
  ultimately show ?thesis
    using assms(1) by (simp add: segment_def)
qed

text \<open>
  The pattern accepts every URL that continues the route: the text after \<open>/spawn\<close> is
  not looked at.
\<close>

lemma route_match_prefix:
  assumes "a \<noteq> []" "CHR ''/'' \<notin> set a" "s \<noteq> []" "CHR ''/'' \<notin> set s"
  shows "route_match (''/user/'' @ a @ ''/service/'' @ s @ ''/spawn'' @ rest) = Some (a, s)"
  using assms by (simp add: route_match_def segment_slash)

text \<open>
  C6. The claim asks 404 for every request that is not a POST to exactly
  \<open>/user/{account}/service/{service}/spawn\<close>. The server for account \<open>acct\<close> and service
  \<open>svc\<close> answers a POST to \<open>/user/acct/service/svc/spawn/extra\<close> with 200 after calling the
  remote spawn, as it does for the route itself; a GET to the route gets 404 and a POST for
  another account 401.
\<close>

theorem route_guard_prefix_only:
  "fst (handle_request ''POST'' ''/user/acct/service/svc/spawn/extra'' (Some ex_body) (Some ex_new) 5 ex_server)
     = Some (Response 200 (Json ex_new))
   \<and> spawn_calls (trace ex_server) = 0
   \<and> spawn_calls (trace (snd (handle_request ''POST'' ''/user/acct/service/svc/spawn/extra''
           (Some ex_body) (Some ex_new) 5 ex_server))) = 1
   \<and> fst (handle_request ''POST'' ''/user/acct/service/svc/spawn'' (Some ex_body) (Some ex_new) 5 ex_server)
     = Some (Response 200 (Json ex_new))
   \<and> fst (handle_request ''GET'' ''/user/acct/service/svc/spawn'' (Some ex_body) (Some ex_new) 5 ex_server)
     = Some (Response 404 NoBody)
   \<and> fst (handle_request ''POST'' ''/user/other/service/svc/spawn'' (Some ex_body) (Some ex_new) 5 ex_server)
     = Some (Response 401 NoBody)"
  by (simp add: handle_request_def route_match_def segment_def spawnBackend_def
      spawnBackend_resume_def attach_and_return_def streamStatusAndLogs_def console_defs
      BACKEND_LOG_COLORS_def ex_server_def ex_new_def Let_def)

end
